theory Spec2Isabelle
  imports Main "HOL-Library.Word"
begin

section \<open>Machine types\<close>

text \<open>
  The dumper is a 64-bit Windows program. Bytes of the target are \<open>std::uint8_t\<close>,
  addresses are \<open>std::uintptr_t\<close>, header fields are \<open>WORD\<close> and \<open>DWORD\<close>.
  A pattern slot is a \<open>std::int32_t\<close>; the compiler only ever stores values between
  \<open>-15\<close> and \<open>255\<close> in one, so slots are modelled as \<open>int\<close>.
  A \<open>std::string_view\<close> is a \<open>string\<close>; its positions are counted by an
  \<open>unsigned\<close>, which cannot wrap for a text shorter than \<open>2 ^ 32\<close> characters.
\<close>

type_synonym byte = "8 word"
type_synonym u16 = "16 word"
type_synonym u32 = "32 word"
type_synonym u64 = "64 word"
type_synonym addr = "64 word"

section \<open>Pattern compilation (\<open>pattern_to_bytes\<close>, process.cpp 48-77)\<close>

subsection \<open>\<open>std::from_chars\<close> in base 16\<close>

text \<open>
  The value of a base-16 digit, upper or lower case; \<open>None\<close> for any other character.
\<close>

definition hex_digit :: "char \<Rightarrow> nat option" where
  "hex_digit c =
     (let n = (of_char c :: nat) in
      if 48 \<le> n \<and> n \<le> 57 then Some (n - 48)
      else if 97 \<le> n \<and> n \<le> 102 then Some (n - 87)
      else if 65 \<le> n \<and> n \<le> 70 then Some (n - 55)
      else None)"

definition is_hex :: "char \<Rightarrow> bool" where
  "is_hex c = (hex_digit c \<noteq> None)"

definition digits_value :: "string \<Rightarrow> int" where
  "digits_value ds = foldl (\<lambda>acc d. 16 * acc + int (the (hex_digit d))) 0 ds"

text \<open>
  \<open>std::from_chars(first, last, value, 16)\<close> for a \<open>std::int32_t\<close>, as the C++
  standard describes it: an optional minus sign, then the longest run of base-16
  digits; no prefix, no plus sign, no leading white space. The result is \<open>None\<close>
  when \<open>ec\<close> is not \<open>std::errc()\<close>: no digit was found
  (\<open>invalid_argument\<close>) or the value does not fit (\<open>result_out_of_range\<close>).
  Characters after the digits are left unread and are no error.
\<close>

definition from_chars :: "string \<Rightarrow> int option" where
  "from_chars cs =
     (let negative = (cs \<noteq> [] \<and> hd cs = CHR ''-'');
          body = (if negative then tl cs else cs);
          digits = takeWhile is_hex body;
          magnitude = digits_value digits;
          v = (if negative then - magnitude else magnitude)
      in if digits = [] then None
         else if v < - (2 ^ 31) \<or> 2 ^ 31 \<le> v then None
         else Some v)"

subsection \<open>The compiler\<close>

text \<open>
  The loop of \<open>pattern_to_bytes\<close> over the positions of the text, as a recursion
  over the characters still to be read. A \<open>?\<close> appends \<open>-1\<close>, a space appends
  nothing. Any other character, unless it is the last one, starts a call of
  \<open>from_chars\<close> on the two characters at the position; on success the value is
  appended and the position advances by two, otherwise by one.
\<close>

fun pattern_to_bytes :: "string \<Rightarrow> int list" where
  "pattern_to_bytes [] = []"
| "pattern_to_bytes [c] =
     (if c = CHR ''?'' then [-1] else [])"
| "pattern_to_bytes (c # d # rest) =
     (if c = CHR ''?'' then -1 # pattern_to_bytes (d # rest)
      else if c = CHR '' '' then pattern_to_bytes (d # rest)
      else (case from_chars [c, d] of
              Some v \<Rightarrow> v # pattern_to_bytes rest
            | None \<Rightarrow> pattern_to_bytes (d # rest)))"

section \<open>The operating system and the session\<close>

text \<open>
  What the program sees of Windows. A Toolhelp snapshot is the list of its entries
  (\<open>None\<close> when \<open>CreateToolhelp32Snapshot\<close> returns \<open>INVALID_HANDLE_VALUE\<close>);
  the module snapshot depends on the process id it is taken of. \<open>OpenProcess\<close>
  returns a handle, null (\<open>0\<close>) on failure. The memory that
  \<open>ReadProcessMemory\<close> reaches through a handle gives a byte per address, \<open>None\<close>
  where the address cannot be read.
\<close>

type_synonym handle = "64 word"

record process_entry =
  th32ProcessID :: u32
  szExeFile :: string

record module_entry =
  szModule :: string
  modBaseAddr :: addr

record os =
  process_snapshot :: "process_entry list option"
  module_snapshot :: "u32 \<Rightarrow> module_entry list option"
  open_process :: "u32 \<Rightarrow> handle"
  process_memory :: "handle \<Rightarrow> addr \<Rightarrow> byte option"

text \<open>
  Modelled from the spec: \<open>utility::SafeHandle\<close> (utility/safe_handle.hpp is not among
  the sources), in the spec \<^emph>\<open>a move-only value that holds one kernel handle\<close> with an
  accessor for the value held. A \<open>SafeHandle\<close> is modelled as the handle it holds.

  The globals of namespace \<open>process\<close> (process.cpp 12-14): \<open>process_id\<close>
  starts as \<open>0\<close>; \<open>process_handle\<close> starts as whatever an empty \<open>SafeHandle\<close>
  holds.
\<close>

record session =
  process_id :: u32
  process_handle :: handle

subsection \<open>Walking a snapshot\<close>

text \<open>
  \<open>Process32First\<close> and \<open>Module32First\<close> copy the first entry of the snapshot
  into the caller's structure and return \<open>TRUE\<close>, or return \<open>FALSE\<close> on an empty
  snapshot; \<open>Process32Next\<close> and \<open>Module32Next\<close> do the same with the entry after
  the one copied last. Both are modelled as returning the entry copied (\<open>None\<close> for
  \<open>FALSE\<close>) and the entries still ahead.
\<close>

definition snapshot_first :: "'e list \<Rightarrow> 'e option \<times> 'e list" where
  "snapshot_first entries =
     (case entries of [] \<Rightarrow> (None, []) | e # rest \<Rightarrow> (Some e, rest))"

definition snapshot_next :: "'e list \<Rightarrow> 'e option \<times> 'e list" where
  "snapshot_next cursor =
     (case cursor of [] \<Rightarrow> (None, []) | e # rest \<Rightarrow> (Some e, rest))"

subsection \<open>\<open>get_process_id_by_name\<close> (process.cpp 16-32)\<close>

text \<open>
  The \<open>for\<close> loop of line 26 has \<open>Process32First\<close> as its init statement and
  \<open>Process32Next\<close> as its condition: the body runs once per successful
  \<open>Process32Next\<close>. \<open>process_loop\<close> is the loop from its first condition test on.
\<close>

function process_loop :: "string \<Rightarrow> process_entry list \<Rightarrow> u32 option" where
  "process_loop process_name cursor =
     (case snapshot_next cursor of
        (None, _) \<Rightarrow> None
      | (Some process_entry, cursor') \<Rightarrow>
          if szExeFile process_entry = process_name then Some (th32ProcessID process_entry)
          else process_loop process_name cursor')"
  by pat_completeness auto
termination
  by (relation "measure (\<lambda>(n, cursor). length cursor)")
     (auto simp: snapshot_next_def split: list.splits)

declare process_loop.simps [simp del]

definition get_process_id_by_name :: "os \<Rightarrow> string \<Rightarrow> u32 option" where
  "get_process_id_by_name w process_name =
     (case process_snapshot w of
        None \<Rightarrow> None
      | Some entries \<Rightarrow> process_loop process_name (snd (snapshot_first entries)))"

subsection \<open>\<open>attach\<close> (process.cpp 34-45)\<close>

text \<open>
  Returns the \<open>bool\<close> and the globals as \<open>attach\<close> leaves them. The id is stored
  in \<open>process_id\<close> first; \<open>OpenProcess\<close> is then called on the stored id and its
  result is stored in \<open>process_handle\<close>.
\<close>

definition attach :: "os \<Rightarrow> string \<Rightarrow> session \<Rightarrow> bool \<times> session" where
  "attach w process_name s =
     (case get_process_id_by_name w process_name of
        None \<Rightarrow> (False, s)
      | Some pid \<Rightarrow>
          (let s1 = s\<lparr>process_id := pid\<rparr>;
               s2 = s1\<lparr>process_handle := open_process w (process_id s1)\<rparr>
           in (process_handle s2 \<noteq> 0, s2)))"

subsection \<open>\<open>get_module_base_by_name\<close> and \<open>loaded_modules\<close> (process.cpp 126-142, 201-217)\<close>

text \<open>
  Modelled from the spec: \<open>utility::string::equals_ignore_case\<close> (utility/string.hpp is
  not among the sources). The spec has module names compare equal
  \<^emph>\<open>case-insensitively (ASCII)\<close>: two texts are equal when they agree character by
  character after the letters \<open>A\<close> to \<open>Z\<close> are mapped to \<open>a\<close> to \<open>z\<close>.
\<close>

definition to_lower :: "char \<Rightarrow> nat" where
  "to_lower c =
     (let n = (of_char c :: nat) in if 65 \<le> n \<and> n \<le> 90 then n + 32 else n)"

definition equals_ignore_case :: "string \<Rightarrow> string \<Rightarrow> bool" where
  "equals_ignore_case a b = (map to_lower a = map to_lower b)"

function module_loop :: "string \<Rightarrow> module_entry list \<Rightarrow> addr option" where
  "module_loop module_name cursor =
     (case snapshot_next cursor of
        (None, _) \<Rightarrow> None
      | (Some module_entry, cursor') \<Rightarrow>
          if equals_ignore_case (szModule module_entry) module_name
          then Some (modBaseAddr module_entry)
          else module_loop module_name cursor')"
  by pat_completeness auto
termination
  by (relation "measure (\<lambda>(n, cursor). length cursor)")
     (auto simp: snapshot_next_def split: list.splits)

declare module_loop.simps [simp del]

definition get_module_base_by_name :: "os \<Rightarrow> session \<Rightarrow> string \<Rightarrow> addr option" where
  "get_module_base_by_name w s module_name =
     (case module_snapshot w (process_id s) of
        None \<Rightarrow> None
      | Some entries \<Rightarrow> module_loop module_name (snd (snapshot_first entries)))"

function names_loop :: "string list \<Rightarrow> module_entry list \<Rightarrow> string list" where
  "names_loop loaded cursor =
     (case snapshot_next cursor of
        (None, _) \<Rightarrow> loaded
      | (Some module_entry, cursor') \<Rightarrow>
          names_loop (loaded @ [szModule module_entry]) cursor')"
  by pat_completeness auto
termination
  by (relation "measure (\<lambda>(n, cursor). length cursor)")
     (auto simp: snapshot_next_def split: list.splits)

declare names_loop.simps [simp del]

definition loaded_modules :: "os \<Rightarrow> session \<Rightarrow> string list option" where
  "loaded_modules w s =
     (case module_snapshot w (process_id s) of
        None \<Rightarrow> None
      | Some entries \<Rightarrow> Some (names_loop [] (snd (snapshot_first entries))))"

section \<open>Reading the target's memory\<close>

subsection \<open>\<open>read_memory\<close> (process.cpp 219-221)\<close>

text \<open>
  \<open>ReadProcessMemory\<close> fills the whole buffer or fails: it succeeds when every one
  of the \<open>size\<close> bytes from \<open>address\<close> on can be read through the handle.
\<close>

primrec read_bytes :: "(addr \<Rightarrow> byte option) \<Rightarrow> addr \<Rightarrow> nat \<Rightarrow> byte list option" where
  "read_bytes m a 0 = Some []"
| "read_bytes m a (Suc n) =
     (case m a of
        None \<Rightarrow> None
      | Some b \<Rightarrow> (case read_bytes m (a + 1) n of None \<Rightarrow> None | Some bs \<Rightarrow> Some (b # bs)))"

definition read_memory :: "os \<Rightarrow> session \<Rightarrow> addr \<Rightarrow> nat \<Rightarrow> byte list option" where
  "read_memory w s address size' =
     read_bytes (process_memory w (process_handle s)) address size'"

subsection \<open>\<open>read_string\<close> (process.cpp 227-237)\<close>

text \<open>
  A byte of the target as a \<open>char\<close> of a \<open>std::string\<close>, and the position
  \<open>std::ranges::find\<close> returns: that of the first element equal to the value, the
  length of the range when there is none.
\<close>

definition byte_char :: "byte \<Rightarrow> char" where
  "byte_char b = char_of (unat b)"

fun ranges_find :: "'a list \<Rightarrow> 'a \<Rightarrow> nat" where
  "ranges_find [] v = 0"
| "ranges_find (x # xs) v = (if x = v then 0 else Suc (ranges_find xs v))"

definition read_string :: "os \<Rightarrow> session \<Rightarrow> addr \<Rightarrow> nat \<Rightarrow> string" where
  "read_string w s address length' =
     (case read_memory w s address length' of
        None \<Rightarrow> []
      | Some bytes \<Rightarrow>
          (let buffer = map byte_char bytes;
               it = ranges_find buffer (CHR 0x00)
           in if it \<noteq> length buffer then take it buffer else buffer))"

section \<open>Local buffers\<close>

text \<open>
  The program copies memory of the target into local arrays and reads header fields
  and table entries out of them through reinterpreted pointers. Such a read is defined
  only inside the array; a read outside it is undefined behaviour in C++ and is the
  \<open>fault\<close> \<open>OutOfBounds\<close> here. A function that can meet one returns
  \<open>fault + 'a\<close>. Multi-byte fields are little-endian.
\<close>

datatype fault = OutOfBounds

definition in_buffer :: "byte list \<Rightarrow> int \<Rightarrow> nat \<Rightarrow> bool" where
  "in_buffer buf off n = (0 \<le> off \<and> nat off + n \<le> length buf)"

definition le16 :: "byte list \<Rightarrow> nat \<Rightarrow> u16" where
  "le16 buf k = word_of_nat (unat (buf ! k) + 256 * unat (buf ! (k + 1)))"

definition le32 :: "byte list \<Rightarrow> nat \<Rightarrow> u32" where
  "le32 buf k =
     word_of_nat (unat (buf ! k) + 256 * unat (buf ! (k + 1))
       + 65536 * unat (buf ! (k + 2)) + 16777216 * unat (buf ! (k + 3)))"

definition read_u16 :: "byte list \<Rightarrow> int \<Rightarrow> fault + u16" where
  "read_u16 buf off =
     (if in_buffer buf off 2 then Inr (le16 buf (nat off)) else Inl OutOfBounds)"

definition read_u32 :: "byte list \<Rightarrow> int \<Rightarrow> fault + u32" where
  "read_u32 buf off =
     (if in_buffer buf off 4 then Inr (le32 buf (nat off)) else Inl OutOfBounds)"

section \<open>PE headers (process.cpp 89-97 and 150-158)\<close>

text \<open>
  Both \<open>find_pattern\<close> and \<open>get_module_export_by_name\<close> check the \<open>0x1000\<close> bytes
  read at the module base in the same way: \<open>e_magic\<close> (offset \<open>0\<close>) must be
  \<open>IMAGE_DOS_SIGNATURE\<close>, and the \<open>Signature\<close> at offset \<open>e_lfanew\<close> (a signed
  \<open>LONG\<close> stored at \<open>0x3C\<close>) must be \<open>IMAGE_NT_SIGNATURE\<close>. The result is the
  offset of the NT headers in the buffer, \<open>None\<close> where the source returns
  \<open>std::nullopt\<close>. The field offsets are those of \<open>winnt.h\<close> for a 64-bit build
  (\<open>IMAGE_NT_HEADERS64\<close>): \<open>OptionalHeader\<close> at \<open>24\<close>, in it
  \<open>SizeOfImage\<close> at \<open>56\<close> and \<open>DataDirectory\<close> at \<open>112\<close>.
\<close>

definition IMAGE_DOS_SIGNATURE :: u16 where
  "IMAGE_DOS_SIGNATURE = 0x5A4D"

definition IMAGE_NT_SIGNATURE :: u32 where
  "IMAGE_NT_SIGNATURE = 0x00004550"

definition validate_headers :: "byte list \<Rightarrow> fault + int option" where
  "validate_headers headers =
     (case read_u16 headers 0 of
        Inl f \<Rightarrow> Inl f
      | Inr e_magic \<Rightarrow>
          if e_magic \<noteq> IMAGE_DOS_SIGNATURE then Inr None
          else (case read_u32 headers 0x3C of
                  Inl f \<Rightarrow> Inl f
                | Inr e_lfanew \<Rightarrow>
                    (let nt_headers = sint e_lfanew in
                     case read_u32 headers nt_headers of
                       Inl f \<Rightarrow> Inl f
                     | Inr signature \<Rightarrow>
                         if signature \<noteq> IMAGE_NT_SIGNATURE then Inr None
                         else Inr (Some nt_headers))))"

definition SizeOfImage :: "byte list \<Rightarrow> int \<Rightarrow> fault + u32" where
  "SizeOfImage headers nt_headers = read_u32 headers (nt_headers + 24 + 56)"

definition export_VirtualAddress :: "byte list \<Rightarrow> int \<Rightarrow> fault + u32" where
  "export_VirtualAddress headers nt_headers = read_u32 headers (nt_headers + 24 + 112)"

definition export_Size :: "byte list \<Rightarrow> int \<Rightarrow> fault + u32" where
  "export_Size headers nt_headers = read_u32 headers (nt_headers + 24 + 112 + 4)"

section \<open>The scan of \<open>find_pattern\<close> (process.cpp 79-124)\<close>

text \<open>
  The inner loop (lines 111-117) from position \<open>j\<close> on, for the outer position
  \<open>i\<close>; both are \<open>unsigned\<close>, so \<open>i + j\<close> is a 32-bit sum. \<open>module_data\<close> is
  the array of \<open>module_size\<close> bytes allocated in line 101: the index \<open>i + j\<close> is
  inside it when it is below \<open>module_size\<close>. The byte is promoted to \<open>int\<close> for
  the comparison with the slot. The result is \<open>found\<close>.
\<close>

function match_slots :: "u32 \<Rightarrow> byte list \<Rightarrow> int list \<Rightarrow> u32 \<Rightarrow> u32 \<Rightarrow> fault + bool" where
  "match_slots module_size module_data pattern_bytes i j =
     (if \<not> unat j < length pattern_bytes then Inr True
      else if \<not> (i + j < module_size \<and> unat (i + j) < length module_data) then Inl OutOfBounds
      else if uint (module_data ! unat (i + j)) \<noteq> pattern_bytes ! unat j
              \<and> pattern_bytes ! unat j \<noteq> -1 then Inr False
      else match_slots module_size module_data pattern_bytes i (j + 1))"
  by pat_completeness auto

lemma unat_succ_below: "(x :: u32) < y \<Longrightarrow> unat (x + 1) = Suc (unat x)"
  by unat_arith

termination match_slots
proof (relation "measure (\<lambda>(ms, d, p, i, j). 2 ^ 32 - unat (i + j))")
  show "wf (measure (\<lambda>(ms :: u32, d :: byte list, p :: int list, i :: u32, j :: u32).
          2 ^ 32 - unat (i + j)))"
    by simp
next
  fix module_size :: u32 and module_data :: "byte list" and pattern_bytes :: "int list"
    and i j :: u32
  assume "\<not> \<not> (i + j < module_size \<and> unat (i + j) < length module_data)"
  then have "unat (i + j + 1) = Suc (unat (i + j))"
    using unat_succ_below by blast
  moreover have "unat (i + j) < 2 ^ 32"
    using unsigned_less [of "i + j"] by simp
  ultimately show "((module_size, module_data, pattern_bytes, i, j + 1),
                    (module_size, module_data, pattern_bytes, i, j))
        \<in> measure (\<lambda>(ms, d, p, i, j). 2 ^ 32 - unat (i + j))"
    by (simp add: add.assoc)
qed

declare match_slots.simps [simp del]

lemma match_slots_False_below:
  "match_slots module_size module_data pattern_bytes i 0 = Inr False \<Longrightarrow> i < module_size"
  by (subst (asm) match_slots.simps) (auto split: if_splits)

lemma scan_from_progress:
  assumes "match_slots module_size module_data pattern_bytes i 0 = Inr False"
  shows "(4294967296::nat) - unat (i + 1) < 4294967296 - unat i"
proof -
  have "i < module_size"
    using assms by (rule match_slots_False_below)
  then have "unat (i + 1) = Suc (unat i)"
    by (rule unat_succ_below)
  moreover have "unat i < 2 ^ 32"
    using unsigned_less [of i] by simp
  ultimately show ?thesis
    by simp
qed

text \<open>
  The outer loop (lines 108-121) from position \<open>i\<close> on. Its bound is
  \<open>module_size - pattern.size()\<close>, where \<open>module_size\<close> is a \<open>std::uint32_t\<close> and
  \<open>pattern.size()\<close>, the length of the pattern \<^emph>\<open>text\<close>, a \<open>std::size_t\<close>: the
  difference is taken in 64 bits without sign and wraps around when the text is
  longer than the image. The result is the position of the match.
\<close>

function scan_from :: "u32 \<Rightarrow> byte list \<Rightarrow> nat \<Rightarrow> int list \<Rightarrow> u32 \<Rightarrow> fault + u32 option" where
  "scan_from module_size module_data pattern_size pattern_bytes i =
     (if \<not> (ucast i :: u64) < ucast module_size - of_nat pattern_size then Inr None
      else (case match_slots module_size module_data pattern_bytes i 0 of
              Inl f \<Rightarrow> Inl f
            | Inr True \<Rightarrow> Inr (Some i)
            | Inr False \<Rightarrow>
                scan_from module_size module_data pattern_size pattern_bytes (i + 1)))"
  by pat_completeness auto
termination
  by (relation "measure (\<lambda>(ms, d, n, p, i). 2 ^ 32 - unat i)")
     (auto simp: scan_from_progress)

declare scan_from.simps [simp del]

text \<open>
  \<open>find_pattern\<close> itself. Every \<open>return std::nullopt\<close> of the source is an
  \<open>Inr None\<close>; a failed allocation of one of the two buffers is not modelled. The \<open>utility::Address\<close> it returns (utility/address.hpp is not among
  the sources) is, in the spec, a thin wrapper around a 64-bit absolute address and is
  modelled as that address.
\<close>

definition find_pattern :: "os \<Rightarrow> session \<Rightarrow> string \<Rightarrow> string \<Rightarrow> fault + addr option" where
  "find_pattern w s module_name pattern =
     (case get_module_base_by_name w s module_name of
        None \<Rightarrow> Inr None
      | Some module_base \<Rightarrow>
     (case read_memory w s module_base 0x1000 of
        None \<Rightarrow> Inr None
      | Some headers \<Rightarrow>
     (case validate_headers headers of
        Inl f \<Rightarrow> Inl f
      | Inr None \<Rightarrow> Inr None
      | Inr (Some nt_headers) \<Rightarrow>
     (case SizeOfImage headers nt_headers of
        Inl f \<Rightarrow> Inl f
      | Inr module_size \<Rightarrow>
     (case read_memory w s module_base (unat module_size) of
        None \<Rightarrow> Inr None
      | Some module_data \<Rightarrow>
     (let pattern_bytes = pattern_to_bytes pattern in
      case scan_from module_size module_data (length pattern) pattern_bytes 0 of
        Inl f \<Rightarrow> Inl f
      | Inr None \<Rightarrow> Inr None
      | Inr (Some i) \<Rightarrow> Inr (Some (module_base + ucast i))))))))"

section \<open>\<open>get_module_export_by_name\<close> (process.cpp 144-199)\<close>

text \<open>
  The fields of \<open>IMAGE_EXPORT_DIRECTORY\<close> the function uses, at their \<open>winnt.h\<close>
  offsets in the copy of the export directory; the structure takes \<open>40\<close> bytes.
\<close>

record export_directory =
  NumberOfNames :: u32
  AddressOfFunctions :: u32
  AddressOfNames :: u32
  AddressOfNameOrdinals :: u32

definition read_export_directory :: "byte list \<Rightarrow> fault + export_directory" where
  "read_export_directory buf =
     (if in_buffer buf 0 40
      then Inr \<lparr>NumberOfNames = le32 buf 24, AddressOfFunctions = le32 buf 28,
                AddressOfNames = le32 buf 32, AddressOfNameOrdinals = le32 buf 36\<rparr>
      else Inl OutOfBounds)"

text \<open>
  Line 172 sets \<open>delta\<close> to the local address of the copy minus the directory's
  \<open>VirtualAddress\<close>, so \<open>rva + delta\<close> is the local address of the byte the target
  has at \<open>rva\<close>. The sums are \<open>std::uintptr_t\<close> sums: element \<open>k\<close> of a table
  of \<open>width\<close>-byte entries at \<open>rva\<close> lies at this offset of the copy.
\<close>

definition local_offset :: "u32 \<Rightarrow> u32 \<Rightarrow> nat \<Rightarrow> u32 \<Rightarrow> int" where
  "local_offset va rva width k =
     uint ((ucast rva :: u64) - ucast va + of_nat width * ucast k)"

text \<open>
  The \<open>std::string_view\<close> made of a \<open>const char*\<close> into the copy (line 179): the
  bytes up to the first NUL, which has to lie inside the copy.
\<close>

definition c_string :: "byte list \<Rightarrow> int \<Rightarrow> fault + byte list" where
  "c_string buf off =
     (if in_buffer buf off 1 \<and> 0 \<in> set (drop (nat off) buf)
      then Inr (takeWhile (\<lambda>b. b \<noteq> 0) (drop (nat off) buf))
      else Inl OutOfBounds)"

text \<open>Lines 185-195: the address of the matched export, or \<open>std::nullopt\<close>.\<close>

definition export_address :: "addr \<Rightarrow> u32 \<Rightarrow> u32 \<Rightarrow> u32 \<Rightarrow> addr option" where
  "export_address module_base va size' function_rva =
     (let function_address = module_base + ucast function_rva in
      if function_address \<ge> module_base + ucast va
         \<and> function_address \<le> module_base + ucast va + ucast size'
      then None
      else Some function_address)"

text \<open>The loop of lines 178-196 from name slot \<open>i\<close> on.\<close>

function export_loop ::
  "addr \<Rightarrow> u32 \<Rightarrow> u32 \<Rightarrow> byte list \<Rightarrow> export_directory \<Rightarrow> string \<Rightarrow> u32
     \<Rightarrow> fault + addr option" where
  "export_loop module_base va size' buf exports function_name i =
     (if \<not> i < NumberOfNames exports then Inr None
      else (case read_u32 buf (local_offset va (AddressOfNames exports) 4 i) of
              Inl f \<Rightarrow> Inl f
            | Inr name_rva \<Rightarrow>
      (case c_string buf (local_offset va name_rva 1 0) of
              Inl f \<Rightarrow> Inl f
            | Inr current_function_name \<Rightarrow>
      if current_function_name \<noteq> map of_char function_name
      then export_loop module_base va size' buf exports function_name (i + 1)
      else (case read_u16 buf (local_offset va (AddressOfNameOrdinals exports) 2 i) of
              Inl f \<Rightarrow> Inl f
            | Inr function_ordinal \<Rightarrow>
      (case read_u32 buf
              (local_offset va (AddressOfFunctions exports) 4 (ucast function_ordinal)) of
              Inl f \<Rightarrow> Inl f
            | Inr function_rva \<Rightarrow>
                Inr (export_address module_base va size' function_rva))))))"
  by pat_completeness auto
termination
  by (relation "measure (\<lambda>(b, va, sz, buf, e, n, i). unat (NumberOfNames e) - unat i)")
     (auto simp: unat_succ_below word_less_nat_alt)

declare export_loop.simps [simp del]

definition get_module_export_by_name ::
  "os \<Rightarrow> session \<Rightarrow> addr \<Rightarrow> string \<Rightarrow> fault + addr option" where
  "get_module_export_by_name w s module_base function_name =
     (case read_memory w s module_base 0x1000 of
        None \<Rightarrow> Inr None
      | Some headers \<Rightarrow>
     (case validate_headers headers of
        Inl f \<Rightarrow> Inl f
      | Inr None \<Rightarrow> Inr None
      | Inr (Some nt_headers) \<Rightarrow>
     (case export_VirtualAddress headers nt_headers of
        Inl f \<Rightarrow> Inl f
      | Inr va \<Rightarrow>
     (case export_Size headers nt_headers of
        Inl f \<Rightarrow> Inl f
      | Inr size' \<Rightarrow>
      if va = 0 \<or> size' = 0 then Inr None
      else (case read_memory w s (module_base + ucast va) (unat size') of
              None \<Rightarrow> Inr None
            | Some export_directory_buffer \<Rightarrow>
           (case read_export_directory export_directory_buffer of
              Inl f \<Rightarrow> Inl f
            | Inr exports \<Rightarrow>
                export_loop module_base va size' export_directory_buffer exports
                  function_name 0))))))"

section \<open>\<open>resolve_rip_relative_address\<close>\<close>

text \<open>
  Modelled from the spec: \<open>process::read_memory<T>\<close> and
  \<open>process::resolve_rip_relative_address\<close>, which main.cpp calls (lines 82, 91, 105)
  and process.hpp, not among the sources, defines. The spec: \<^emph>\<open>read\<close> \<open>sizeof(T)\<close>
  \<^emph>\<open>bytes into a\<close> \<open>T\<close>\<^emph>\<open>; return the value on success\<close>, and \<^emph>\<open>read the 4-byte
  signed displacement at\<close> \<open>addr + 3\<close>\<^emph>\<open>, then the absolute target is\<close>
  \<open>addr + displacement + 7\<close>\<^emph>\<open>; on any read failure,\<close> \<open>None\<close>. The displacement is
  kept as the 32 bits read and sign-extended to 64 bits when it is added.
\<close>

definition read_memory_i32 :: "os \<Rightarrow> session \<Rightarrow> addr \<Rightarrow> u32 option" where
  "read_memory_i32 w s address =
     (case read_memory w s address 4 of
        None \<Rightarrow> None
      | Some bytes \<Rightarrow> Some (le32 bytes 0))"

definition resolve_rip_relative_address :: "os \<Rightarrow> session \<Rightarrow> addr \<Rightarrow> addr option" where
  "resolve_rip_relative_address w s address =
     (case read_memory_i32 w s (address + 3) of
        None \<Rightarrow> None
      | Some displacement \<Rightarrow> Some (address + scast displacement + 7))"

section \<open>Well-formed pattern texts\<close>

text \<open>
  The pattern texts the spec describes: tokens separated by single spaces, each a
  single \<open>?\<close> or two hex digits. \<open>pattern_text\<close> writes a token list as such a
  text and \<open>slot_of\<close> is the slot the spec gives a token: \<open>-1\<close> for the wildcard,
  the byte value of the pair otherwise.
\<close>

datatype token = Wildcard | HexPair char char

fun token_text :: "token \<Rightarrow> string" where
  "token_text Wildcard = ''?''"
| "token_text (HexPair a b) = [a, b]"

fun well_formed :: "token \<Rightarrow> bool" where
  "well_formed Wildcard = True"
| "well_formed (HexPair a b) = (is_hex a \<and> is_hex b)"

fun slot_of :: "token \<Rightarrow> int" where
  "slot_of Wildcard = -1"
| "slot_of (HexPair a b) = 16 * int (the (hex_digit a)) + int (the (hex_digit b))"

fun pattern_text :: "token list \<Rightarrow> string" where
  "pattern_text [] = []"
| "pattern_text [t] = token_text t"
| "pattern_text (t # u # ts) = token_text t @ '' '' @ pattern_text (u # ts)"

definition is_slot :: "int \<Rightarrow> bool" where
  "is_slot v = (v = -1 \<or> (0 \<le> v \<and> v \<le> 255))"

section \<open>What the spec asks of the scan\<close>

text \<open>
  The spec's condition for a match of the compiled pattern \<open>P\<close> at index \<open>i\<close> of the
  buffer \<open>B\<close>: the pattern fits into the buffer from \<open>i\<close> on, and every slot is
  \<open>-1\<close> or equal to the byte it lies on.
\<close>

definition matches_at :: "int list \<Rightarrow> byte list \<Rightarrow> nat \<Rightarrow> bool" where
  "matches_at P B i =
     (i + length P \<le> length B
      \<and> list_all (\<lambda>j. P ! j = -1 \<or> uint (B ! (i + j)) = P ! j) [0..<length P])"

text \<open>The same condition on the slots from \<open>j\<close> on, as the inner loop meets it.\<close>

definition slots_match_from :: "int list \<Rightarrow> byte list \<Rightarrow> nat \<Rightarrow> nat \<Rightarrow> bool" where
  "slots_match_from P B i j =
     list_all (\<lambda>k. P ! k = -1 \<or> uint (B ! (i + k)) = P ! k) [j..<length P]"

section \<open>Example targets\<close>

text \<open>
  Concrete worlds for the closed theorems below. A target image is given by the table
  of its non-zero bytes (\<open>sparse\<close>, by offset) and is mapped, wholly readable, at a
  base address (\<open>mapped_image\<close>). \<open>example_os\<close> has two processes and, in
  process \<open>4321\<close>, two modules, the second of them \<open>client.dll\<close> at the base of the
  image; the memory is reached through the handle \<open>0x1A4\<close> that \<open>OpenProcess\<close>
  returns for that process, and through no other handle.
\<close>

definition sparse :: "(nat \<times> byte) list \<Rightarrow> nat \<Rightarrow> byte" where
  "sparse table k = (case map_of table k of None \<Rightarrow> 0 | Some b \<Rightarrow> b)"

definition mapped_image :: "addr \<Rightarrow> (nat \<Rightarrow> byte) \<Rightarrow> addr \<Rightarrow> byte option" where
  "mapped_image base img a = Some (img (unat (a - base)))"

definition example_os :: "addr \<Rightarrow> (nat \<times> byte) list \<Rightarrow> os" where
  "example_os base table =
     \<lparr>process_snapshot = Some
        [\<lparr>th32ProcessID = 0, szExeFile = ''[System Process]''\<rparr>,
         \<lparr>th32ProcessID = 4321, szExeFile = ''cs2.exe''\<rparr>],
      module_snapshot = (\<lambda>pid. if pid = 4321
        then Some [\<lparr>szModule = ''cs2.exe'', modBaseAddr = 0x140000000\<rparr>,
                   \<lparr>szModule = ''client.dll'', modBaseAddr = base\<rparr>]
        else None),
      open_process = (\<lambda>pid. if pid = 4321 then 0x1A4 else 0),
      process_memory = (\<lambda>h. if h = 0x1A4 then mapped_image base (sparse table)
        else (\<lambda>a. None))\<rparr>"

definition example_session :: session where
  "example_session = \<lparr>process_id = 4321, process_handle = 0x1A4\<rparr>"

text \<open>
  The session before any \<open>attach\<close>: \<open>process_id\<close> is \<open>0\<close> (line 12) and the
  handle is the value of an empty \<open>SafeHandle\<close>.
\<close>

definition uninitialized :: "handle \<Rightarrow> session" where
  "uninitialized empty_handle = \<lparr>process_id = 0, process_handle = empty_handle\<rparr>"

text \<open>The same world, where \<open>OpenProcess\<close> fails for every process.\<close>

definition locked_os :: os where
  "locked_os = (example_os 0x180000000 [])\<lparr>open_process := (\<lambda>pid. 0)\<rparr>"

text \<open>
  A PE image with valid signatures: \<open>MZ\<close>, \<open>e_lfanew = 0x80\<close> and \<open>PE\<close> at
  \<open>0x80\<close>. \<open>bare_image\<close> has nothing else, so its \<open>SizeOfImage\<close> (at \<open>0xD0\<close>) is
  \<open>0\<close>. \<open>export_image\<close> has \<open>SizeOfImage = 0x3000\<close> and an export directory of
  \<open>0x40\<close> bytes at \<open>0x2000\<close> (data directory entry at \<open>0x108\<close>) with one name,
  \<open>Foo\<close>, whose function lies at \<open>0x2040\<close>: the first byte after the directory.
\<close>

definition example_headers :: "(nat \<times> byte) list" where
  "example_headers =
     [(0x00, 0x4D), (0x01, 0x5A),
      (0x3C, 0x80),
      (0x80, 0x50), (0x81, 0x45)]"

definition example_exports :: "(nat \<times> byte) list" where
  "example_exports =
     [(0xD1, 0x30),
      (0x109, 0x20), (0x10C, 0x40),
      (0x2018, 0x01),
      (0x201C, 0x28), (0x201D, 0x20),
      (0x2020, 0x2C), (0x2021, 0x20),
      (0x2024, 0x30), (0x2025, 0x20),
      (0x2028, 0x40), (0x2029, 0x20),
      (0x202C, 0x34), (0x202D, 0x20),
      (0x2034, 0x46), (0x2035, 0x6F), (0x2036, 0x6F)]"

definition bare_image :: "(nat \<times> byte) list" where
  "bare_image = example_headers"

definition export_image :: "(nat \<times> byte) list" where
  "export_image = example_headers @ example_exports"

text \<open>Images of the same kind whose headers give \<open>SizeOfImage\<close> as \<open>1\<close> and \<open>2\<close>.\<close>

definition one_byte_image :: "(nat \<times> byte) list" where
  "one_byte_image = example_headers @ [(0xD0, 0x01)]"

definition two_byte_image :: "(nat \<times> byte) list" where
  "two_byte_image = example_headers @ [(0xD0, 0x02)]"

definition export_buffer :: "byte list" where
  "export_buffer = map (sparse export_image) [0x2000..<0x2040]"

text \<open>
  The instruction \<open>48 8B 0D 10 00 00 00\<close> and the same with displacement \<open>-16\<close>,
  and the bytes of \<open>Hi\<close>, a NUL, a \<open>!\<close> and further NULs.
\<close>

definition mov_forward :: "(nat \<times> byte) list" where
  "mov_forward = [(0, 0x48), (1, 0x8B), (2, 0x0D), (3, 0x10)]"

definition mov_backward :: "(nat \<times> byte) list" where
  "mov_backward = [(0, 0x48), (1, 0x8B), (2, 0x0D), (3, 0xF0), (4, 0xFF), (5, 0xFF), (6, 0xFF)]"

definition greeting :: "(nat \<times> byte) list" where
  "greeting = [(0, 0x48), (1, 0x69), (3, 0x21)]"

section \<open>Verified properties\<close>

subsection \<open>Pattern compilation\<close>

lemma hex_digit_less: "hex_digit c = Some n \<Longrightarrow> n < 16"
  by (auto simp: hex_digit_def Let_def split: if_splits)

lemma is_hex_not_special:
  "is_hex c \<Longrightarrow> c \<noteq> CHR ''?'' \<and> c \<noteq> CHR '' '' \<and> c \<noteq> CHR ''-''"
  by (auto simp: is_hex_def hex_digit_def)

lemma from_chars_pair:
  assumes "is_hex a" "is_hex b"
  shows "from_chars [a, b] = Some (16 * int (the (hex_digit a)) + int (the (hex_digit b)))"
proof -
  obtain m n where mn: "hex_digit a = Some m" "hex_digit b = Some n"
    using assms by (auto simp: is_hex_def)
  have "m < 16" "n < 16"
    using mn hex_digit_less by blast+
  moreover have "a \<noteq> CHR ''-''"
    using assms(1) is_hex_not_special by blast
  ultimately show ?thesis
    using assms mn by (simp add: from_chars_def digits_value_def)
qed

lemma pattern_to_bytes_token:
  assumes "well_formed t"
  shows "pattern_to_bytes (token_text t) = [slot_of t]"
    and "pattern_to_bytes (token_text t @ CHR '' '' # cs) = slot_of t # pattern_to_bytes cs"
  using assms
  by (cases t; cases cs; auto simp: from_chars_pair dest: is_hex_not_special)+

lemma compile_tokens:
  "list_all well_formed ts \<Longrightarrow> pattern_to_bytes (pattern_text ts) = map slot_of ts"
  by (induction ts rule: pattern_text.induct) (simp_all add: pattern_to_bytes_token)

lemma slot_of_is_slot: "well_formed t \<Longrightarrow> is_slot (slot_of t)"
proof (cases t)
  case Wildcard
  then show ?thesis by (simp add: is_slot_def)
next
  case (HexPair a b)
  assume "well_formed t"
  then obtain m n where mn: "hex_digit a = Some m" "hex_digit b = Some n"
    using HexPair by (auto simp: is_hex_def)
  have "m < 16" "n < 16"
    using mn hex_digit_less by blast+
  then show ?thesis
    using HexPair mn by (simp add: is_slot_def)
qed

text \<open>
  Claim C2. The text \<open>48 8B 0D ? ? ? ? 48 89 7C 24 ?\<close> compiles to the twelve slots
  \<open>0x48, 0x8B, 0x0D, -1, -1, -1, -1, 0x48, 0x89, 0x7C, 0x24, -1\<close>. In general, a
  text of well-formed tokens separated by single spaces compiles to one slot per
  token, in the order of the text: \<open>-1\<close> for each \<open>?\<close> and the byte value, between
  \<open>0\<close> and \<open>255\<close>, of each pair of hex digits.
\<close>

theorem pattern_to_bytes_tokens:
  "pattern_to_bytes ''48 8B 0D ? ? ? ? 48 89 7C 24 ?''
     = [0x48, 0x8B, 0x0D, -1, -1, -1, -1, 0x48, 0x89, 0x7C, 0x24, -1]
   \<and> (list_all well_formed ts \<longrightarrow>
        pattern_to_bytes (pattern_text ts) = map slot_of ts
        \<and> list_all is_slot (pattern_to_bytes (pattern_text ts)))"
proof -
  have "pattern_to_bytes ''48 8B 0D ? ? ? ? 48 89 7C 24 ?''
      = [0x48, 0x8B, 0x0D, -1, -1, -1, -1, 0x48, 0x89, 0x7C, 0x24, -1]"
    by (simp add: from_chars_def hex_digit_def is_hex_def digits_value_def)
  moreover have "list_all is_slot (map slot_of ts)" if "list_all well_formed ts"
    using that by (induction ts) (simp_all add: slot_of_is_slot)
  ultimately show ?thesis
    by (simp add: compile_tokens)
qed

theorem pattern_to_bytes_tokens_witness:
  "list_all well_formed [HexPair CHR ''4'' CHR ''8'', Wildcard, HexPair CHR ''c'' CHR ''0'']
   \<and> pattern_text [HexPair CHR ''4'' CHR ''8'', Wildcard, HexPair CHR ''c'' CHR ''0'']
       = ''48 ? c0''
   \<and> pattern_to_bytes ''48 ? c0'' = [0x48, -1, 0xC0]"
  using pattern_to_bytes_tokens
    [of "[HexPair CHR ''4'' CHR ''8'', Wildcard, HexPair CHR ''c'' CHR ''0'']"]
  by (simp add: is_hex_def hex_digit_def)

subsection \<open>Snapshot lookups\<close>

lemma process_loop_find:
  "process_loop n es = map_option th32ProcessID (find (\<lambda>e. szExeFile e = n) es)"
  by (induction es) (subst process_loop.simps, simp add: snapshot_next_def)+

lemma module_loop_find:
  "module_loop n es
     = map_option modBaseAddr (find (\<lambda>e. equals_ignore_case (szModule e) n) es)"
  by (induction es) (subst module_loop.simps, simp add: snapshot_next_def)+

lemma names_loop_map: "names_loop acc es = acc @ map szModule es"
  by (induction es arbitrary: acc) (subst names_loop.simps, simp add: snapshot_next_def)+

lemma find_None_list_all: "list_all (\<lambda>x. \<not> P x) xs \<Longrightarrow> find P xs = None"
  by (induction xs) simp_all

text \<open>
  Claim C3. Each of the three snapshot walks calls \<open>First\<close> once and tests only what
  the \<open>Next\<close> calls return, so the first entry of the snapshot is dropped. With a
  process snapshot \<open>e # es\<close>, \<open>get_process_id_by_name\<close> returns the id of the first
  entry \<^emph>\<open>of\<close> \<open>es\<close> with the name, and \<open>None\<close> when no entry of \<open>es\<close> has it,
  whatever \<open>e\<close> is. With a module snapshot \<open>m # ms\<close>, \<open>get_module_base_by_name\<close>
  does the same over \<open>ms\<close>, and \<open>loaded_modules\<close> lists the names of \<open>ms\<close> only.
\<close>

theorem snapshot_loops_drop_first_entry:
  "(process_snapshot w = Some (e # es) \<longrightarrow>
      get_process_id_by_name w name
        = map_option th32ProcessID (find (\<lambda>x. szExeFile x = name) es)
      \<and> (list_all (\<lambda>x. szExeFile x \<noteq> name) es \<longrightarrow> get_process_id_by_name w name = None))
   \<and> (module_snapshot w (process_id s) = Some (m # ms) \<longrightarrow>
      get_module_base_by_name w s name
        = map_option modBaseAddr (find (\<lambda>x. equals_ignore_case (szModule x) name) ms)
      \<and> (list_all (\<lambda>x. \<not> equals_ignore_case (szModule x) name) ms \<longrightarrow>
           get_module_base_by_name w s name = None)
      \<and> loaded_modules w s = Some (map szModule ms))"
  by (simp add: get_process_id_by_name_def get_module_base_by_name_def loaded_modules_def
      snapshot_first_def process_loop_find module_loop_find names_loop_map find_None_list_all)

theorem snapshot_loops_drop_first_entry_witness:
  "process_snapshot (example_os 0x180000000 bare_image)
     = Some [\<lparr>th32ProcessID = 0, szExeFile = ''[System Process]''\<rparr>,
             \<lparr>th32ProcessID = 4321, szExeFile = ''cs2.exe''\<rparr>]
   \<and> get_process_id_by_name (example_os 0x180000000 bare_image) ''[System Process]'' = None
   \<and> get_process_id_by_name (example_os 0x180000000 bare_image) ''cs2.exe'' = Some 4321
   \<and> module_snapshot (example_os 0x180000000 bare_image) (process_id example_session)
     = Some [\<lparr>szModule = ''cs2.exe'', modBaseAddr = 0x140000000\<rparr>,
             \<lparr>szModule = ''client.dll'', modBaseAddr = 0x180000000\<rparr>]
   \<and> get_module_base_by_name (example_os 0x180000000 bare_image) example_session ''cs2.exe''
     = None
   \<and> loaded_modules (example_os 0x180000000 bare_image) example_session
     = Some [''client.dll'']"
  using snapshot_loops_drop_first_entry
    [of "example_os 0x180000000 bare_image"
        "\<lparr>th32ProcessID = 0, szExeFile = ''[System Process]''\<rparr>"
        "[\<lparr>th32ProcessID = 4321, szExeFile = ''cs2.exe''\<rparr>]" "''[System Process]''"
        example_session "\<lparr>szModule = ''cs2.exe'', modBaseAddr = 0x140000000\<rparr>"
        "[\<lparr>szModule = ''client.dll'', modBaseAddr = 0x180000000\<rparr>]"]
    snapshot_loops_drop_first_entry
    [of "example_os 0x180000000 bare_image"
        "\<lparr>th32ProcessID = 0, szExeFile = ''[System Process]''\<rparr>"
        "[\<lparr>th32ProcessID = 4321, szExeFile = ''cs2.exe''\<rparr>]" "''cs2.exe''"
        example_session "\<lparr>szModule = ''cs2.exe'', modBaseAddr = 0x140000000\<rparr>"
        "[\<lparr>szModule = ''client.dll'', modBaseAddr = 0x180000000\<rparr>]"]
  by (simp add: example_os_def example_session_def equals_ignore_case_def to_lower_def)

subsection \<open>\<open>attach\<close>\<close>

text \<open>
  Claim C4, as amended. When no process has the name, \<open>attach\<close> returns \<open>false\<close> and
  leaves \<open>process_id\<close> and \<open>process_handle\<close> as they were. When the process is found
  and \<open>OpenProcess\<close> returns null, \<open>attach\<close> returns \<open>false\<close> with the handle null
  and \<open>process_id\<close> set to the id found. \<open>attach\<close> returns \<open>false\<close> in these two
  cases only.
\<close>

theorem attach_failure:
  "(get_process_id_by_name w name = None \<longrightarrow> attach w name s = (False, s))
   \<and> (get_process_id_by_name w name = Some pid \<and> open_process w pid = 0 \<longrightarrow>
        attach w name s = (False, s\<lparr>process_id := pid, process_handle := 0\<rparr>))
   \<and> (\<not> fst (attach w name s) \<longrightarrow>
        get_process_id_by_name w name = None
        \<or> (\<exists>pid. get_process_id_by_name w name = Some pid \<and> open_process w pid = 0))"
  by (auto simp: attach_def Let_def split: option.splits)

lemma locked_pid: "get_process_id_by_name locked_os ''cs2.exe'' = Some 4321"
  by (simp add: get_process_id_by_name_def locked_os_def example_os_def snapshot_first_def
      process_loop_find)

lemma locked_pid_none: "get_process_id_by_name locked_os ''csgo.exe'' = None"
  by (simp add: get_process_id_by_name_def locked_os_def example_os_def snapshot_first_def
      process_loop_find)

lemma locked_open: "open_process locked_os pid = 0"
  by (simp add: locked_os_def)

theorem attach_failure_witness:
  "get_process_id_by_name locked_os ''csgo.exe'' = None
   \<and> attach locked_os ''csgo.exe'' (uninitialized 0) = (False, uninitialized 0)
   \<and> get_process_id_by_name locked_os ''cs2.exe'' = Some 4321
   \<and> open_process locked_os 4321 = 0
   \<and> attach locked_os ''cs2.exe'' (uninitialized 0)
       = (False, \<lparr>process_id = 4321, process_handle = 0\<rparr>)"
  using attach_failure [where w = locked_os and name = "''csgo.exe''" and s = "uninitialized 0"]
    attach_failure [where w = locked_os and name = "''cs2.exe''" and pid = 4321
      and s = "uninitialized 0"]
    locked_pid locked_pid_none locked_open
  by (simp add: uninitialized_def)

text \<open>
  Claim C4 as stated fails: in a world where \<open>cs2.exe\<close> runs as process \<open>4321\<close>
  and cannot be opened, \<open>attach\<close> returns \<open>false\<close> and the session is no longer
  the uninitialized one, whether an empty \<open>SafeHandle\<close> holds null or
  \<open>INVALID_HANDLE_VALUE\<close>.
\<close>

theorem attach_not_atomic:
  "fst (attach locked_os ''cs2.exe'' (uninitialized 0)) = False
   \<and> snd (attach locked_os ''cs2.exe'' (uninitialized 0)) \<noteq> uninitialized 0
   \<and> fst (attach locked_os ''cs2.exe'' (uninitialized (- 1))) = False
   \<and> snd (attach locked_os ''cs2.exe'' (uninitialized (- 1))) \<noteq> uninitialized (- 1)"
  by (simp add: attach_def locked_pid locked_open Let_def uninitialized_def)

subsection \<open>Memory reads and \<open>read_string\<close>\<close>

lemma read_bytes_length: "read_bytes m a n = Some bs \<Longrightarrow> length bs = n"
  by (induction n arbitrary: a bs) (auto split: option.splits)

lemma read_bytes_nth:
  "read_bytes m a n = Some bs \<Longrightarrow> k < n \<Longrightarrow> m (a + of_nat k) = Some (bs ! k)"
proof (induction n arbitrary: a bs k)
  case 0
  then show ?case by simp
next
  case (Suc n)
  from Suc.prems(1) obtain b rest where parts:
    "m a = Some b" "read_bytes m (a + 1) n = Some rest" "bs = b # rest"
    by (auto split: option.splits)
  show ?case
  proof (cases k)
    case 0
    then show ?thesis using parts by simp
  next
    case (Suc j)
    then have "j < n" using Suc.prems(2) by simp
    then have "m (a + 1 + of_nat j) = Some (rest ! j)"
      using Suc.IH parts(2) by blast
    then show ?thesis using Suc parts(3) by (simp add: add.assoc)
  qed
qed

lemma byte_char_NUL: "byte_char b = CHR 0x00 \<longleftrightarrow> b = 0"
proof -
  have "unat b < 256" using unsigned_less [of b] by simp
  then have "take_bit 8 (unat b) = unat b"
    by (simp add: take_bit_eq_mod)
  then show ?thesis
    by (simp add: byte_char_def char_of_eq_iff unat_eq_0)
qed

lemma ranges_find_takeWhile: "take (ranges_find xs v) xs = takeWhile (\<lambda>x. x \<noteq> v) xs"
  by (induction xs) simp_all

lemma ranges_find_le: "ranges_find xs v \<le> length xs"
  by (induction xs) simp_all

lemma takeWhile_map_byte_char:
  "takeWhile (\<lambda>c. c \<noteq> CHR 0x00) (map byte_char bs) = map byte_char (takeWhile (\<lambda>b. b \<noteq> 0) bs)"
  by (induction bs) (simp_all add: byte_char_NUL)

lemma read_string_Some:
  assumes "read_memory w s address n = Some bytes"
  shows "read_string w s address n = map byte_char (takeWhile (\<lambda>b. b \<noteq> 0) bytes)"
proof -
  let ?buffer = "map byte_char bytes"
  have "(if ranges_find ?buffer (CHR 0x00) \<noteq> length ?buffer
         then take (ranges_find ?buffer (CHR 0x00)) ?buffer else ?buffer)
      = take (ranges_find ?buffer (CHR 0x00)) ?buffer"
    by simp
  then show ?thesis
    using assms
    by (simp add: read_string_def Let_def ranges_find_takeWhile takeWhile_map_byte_char
        del: take_map)
qed

text \<open>
  Claim C7. \<open>read_string\<close> reads \<open>length\<close> bytes at the address. When the read fails
  it returns the empty string. When it succeeds, with the bytes of the target at the
  address and the \<open>length - 1\<close> addresses after it, it returns the bytes before the
  first NUL byte, all of them when none is NUL, as characters.
\<close>

theorem read_string_truncates_at_NUL:
  "(read_memory w s address n = None \<longrightarrow> read_string w s address n = [])
   \<and> (read_memory w s address n = Some bytes \<longrightarrow>
        length bytes = n
        \<and> (\<forall>k<n. process_memory w (process_handle s) (address + of_nat k) = Some (bytes ! k))
        \<and> read_string w s address n = map byte_char (takeWhile (\<lambda>b. b \<noteq> 0) bytes))"
  using read_bytes_length [of "process_memory w (process_handle s)" address n bytes]
    read_bytes_nth [of "process_memory w (process_handle s)" address n bytes]
  by (auto simp: read_string_Some) (simp_all add: read_string_def read_memory_def)


lemma read_bytes_mapped_image:
  "off + n \<le> 2 ^ 64 \<Longrightarrow>
   read_bytes (mapped_image base img) (base + of_nat off) n = Some (map img [off..<off + n])"
proof (induction n arbitrary: off)
  case 0
  then show ?case by simp
next
  case (Suc n)
  have "off < 2 ^ 64" using Suc.prems by simp
  then have "unat (word_of_nat off :: u64) = off"
    by (simp add: unat_of_nat)
  then have here: "mapped_image base img (base + of_nat off) = Some (img off)"
    by (simp add: mapped_image_def)
  have step: "base + of_nat off + 1 = base + of_nat (Suc off)"
    by simp
  have "Suc off + n \<le> 2 ^ 64"
    using Suc.prems by simp
  then have "read_bytes (mapped_image base img) (base + of_nat (Suc off)) n
      = Some (map img [Suc off..<Suc off + n])"
    by (rule Suc.IH)
  then have rest: "read_bytes (mapped_image base img) (base + of_nat off + 1) n
      = Some (map img [Suc off..<Suc off + n])"
    by (simp only: step)
  have lt: "off < off + Suc n" and eq: "off + Suc n = Suc off + n"
    by simp_all
  have split: "[off..<off + Suc n] = off # [Suc off..<Suc off + n]"
    using upt_conv_Cons [OF lt] by (simp only: eq)
  show ?case
    by (simp only: read_bytes.simps here option.case rest split list.map)
qed

lemma read_memory_example:
  assumes "unat (a - base) + n \<le> 2 ^ 64"
  shows "read_memory (example_os base table) example_session a n
    = Some (map (sparse table) [unat (a - base)..<unat (a - base) + n])"
proof -
  have "a = base + of_nat (unat (a - base))"
    by simp
  then have "read_bytes (mapped_image base (sparse table)) a n
    = Some (map (sparse table) [unat (a - base)..<unat (a - base) + n])"
    using read_bytes_mapped_image [OF assms, of base "sparse table"] by simp
  then show ?thesis
    by (simp add: read_memory_def example_os_def example_session_def)
qed

lemma greeting_bytes:
  "read_memory (example_os 0x20000 greeting) example_session 0x20000 8
     = Some [0x48, 0x69, 0, 0x21, 0, 0, 0, 0]"
proof -
  have "[0..<8] = [0, 1, 2, 3, 4, 5, 6, 7 :: nat]"
    by (simp add: upt_conv_Cons)
  then show ?thesis
    using read_memory_example [of "0x20000" "0x20000" 8 greeting]
    by (simp add: sparse_def greeting_def)
qed

lemma null_handle_read:
  "read_memory (example_os 0x20000 greeting) (uninitialized 0) 0x20000 8 = None"
proof -
  have "read_bytes (\<lambda>a. None) (0x20000 :: addr) (Suc 7) = None"
    by (simp only: read_bytes.simps option.case)
  then show ?thesis
    by (simp add: read_memory_def example_os_def uninitialized_def)
qed

theorem read_string_truncates_at_NUL_witness:
  "read_memory (example_os 0x20000 greeting) example_session 0x20000 8
     = Some [0x48, 0x69, 0, 0x21, 0, 0, 0, 0]
   \<and> read_string (example_os 0x20000 greeting) example_session 0x20000 8
     = [byte_char 0x48, byte_char 0x69]
   \<and> read_memory (example_os 0x20000 greeting) (uninitialized 0) 0x20000 8 = None
   \<and> read_string (example_os 0x20000 greeting) (uninitialized 0) 0x20000 8 = []"
  using read_string_truncates_at_NUL [where w = "example_os 0x20000 greeting"
      and s = example_session and address = "0x20000" and n = 8
      and bytes = "[0x48, 0x69, 0, 0x21, 0, 0, 0, 0]"]
    read_string_truncates_at_NUL [where w = "example_os 0x20000 greeting"
      and s = "uninitialized 0" and address = "0x20000" and n = 8]
    greeting_bytes null_handle_read
  by simp

subsection \<open>\<open>find_pattern\<close> with the empty pattern\<close>

lemma match_slots_Nil: "match_slots module_size module_data [] i j = Inr True"
  by (subst match_slots.simps) simp

lemma scan_from_empty_pattern:
  "scan_from module_size module_data 0 [] 0
     = (if module_size = 0 then Inr None else Inr (Some 0))"
proof -
  have "uint (ucast module_size :: u64) = uint module_size"
    by (simp add: uint_up_ucast is_up)
  then have "(ucast module_size :: u64) = 0 \<longleftrightarrow> module_size = 0"
    by (simp add: word_uint_eq_iff)
  then have "(0 :: u64) < ucast module_size \<longleftrightarrow> module_size \<noteq> 0"
    by (simp add: word_greater_zero_iff)
  then show ?thesis
    by (subst scan_from.simps) (simp add: match_slots_Nil)
qed

text \<open>
  Claim C10, as amended. For a module that is found, whose \<open>0x1000\<close> header bytes are
  read and pass both signature checks, and whose image of \<open>SizeOfImage\<close> bytes is
  read, \<open>find_pattern\<close> with the empty pattern text returns the module base plus
  \<open>0\<close> when \<open>SizeOfImage\<close> is not zero. When \<open>SizeOfImage\<close> is zero the outer loop
  runs no iteration and the result is \<open>std::nullopt\<close>.
\<close>

theorem find_pattern_empty_pattern:
  assumes "get_module_base_by_name w s name = Some module_base"
    and "read_memory w s module_base 0x1000 = Some headers"
    and "validate_headers headers = Inr (Some nt_headers)"
    and "SizeOfImage headers nt_headers = Inr module_size"
    and "read_memory w s module_base (unat module_size) = Some module_data"
  shows "find_pattern w s name ''''
     = (if module_size = 0 then Inr None else Inr (Some (module_base + 0)))"
  using assms by (simp add: find_pattern_def scan_from_empty_pattern)

lemma example_client_base:
  "get_module_base_by_name (example_os base table) example_session ''client.dll'' = Some base"
  by (simp add: get_module_base_by_name_def example_os_def example_session_def
      snapshot_first_def module_loop_find equals_ignore_case_def to_lower_def)

lemma example_headers_read:
  "read_memory (example_os base table) example_session base 0x1000
     = Some (map (sparse table) [0..<0x1000])"
  using read_memory_example [of base base "0x1000" table] by simp

lemma bare_validate:
  "validate_headers (map (sparse bare_image) [0..<0x1000]) = Inr (Some 0x80)"
  by (simp add: validate_headers_def read_u16_def read_u32_def in_buffer_def le16_def le32_def
      sparse_def example_headers_def bare_image_def IMAGE_DOS_SIGNATURE_def
      IMAGE_NT_SIGNATURE_def)

lemma export_validate:
  "validate_headers (map (sparse export_image) [0..<0x1000]) = Inr (Some 0x80)"
  by (simp add: validate_headers_def read_u16_def read_u32_def in_buffer_def le16_def le32_def
      sparse_def example_headers_def example_exports_def export_image_def
      IMAGE_DOS_SIGNATURE_def IMAGE_NT_SIGNATURE_def)

lemma bare_size:
  "SizeOfImage (map (sparse bare_image) [0..<0x1000]) 0x80 = Inr 0"
  by (simp add: SizeOfImage_def read_u32_def in_buffer_def le32_def
      sparse_def example_headers_def bare_image_def)

lemma export_size:
  "SizeOfImage (map (sparse export_image) [0..<0x1000]) 0x80 = Inr 0x3000"
  by (simp add: SizeOfImage_def read_u32_def in_buffer_def le32_def
      sparse_def example_headers_def example_exports_def export_image_def)

lemma example_image_read:
  "read_memory (example_os base table) example_session base 0x3000
     = Some (map (sparse table) [0..<0x3000])"
  using read_memory_example [of base base "0x3000" table] by simp

lemma bare_image_read:
  "read_memory (example_os base table) example_session base 0 = Some []"
  by (simp add: read_memory_def)

theorem find_pattern_empty_pattern_witness:
  "get_module_base_by_name (example_os 0x180000000 export_image) example_session ''client.dll''
     = Some 0x180000000
   \<and> read_memory (example_os 0x180000000 export_image) example_session 0x180000000 0x1000
     = Some (map (sparse export_image) [0..<0x1000])
   \<and> validate_headers (map (sparse export_image) [0..<0x1000]) = Inr (Some 0x80)
   \<and> SizeOfImage (map (sparse export_image) [0..<0x1000]) 0x80 = Inr 0x3000
   \<and> read_memory (example_os 0x180000000 export_image) example_session 0x180000000 0x3000
     = Some (map (sparse export_image) [0..<0x3000])
   \<and> find_pattern (example_os 0x180000000 export_image) example_session ''client.dll'' ''''
     = Inr (Some 0x180000000)"
  using find_pattern_empty_pattern [where w = "example_os 0x180000000 export_image"
      and s = example_session and name = "''client.dll''"
      and module_base = "0x180000000" and headers = "map (sparse export_image) [0..<0x1000]"
      and nt_headers = "0x80" and module_size = "0x3000"
      and module_data = "map (sparse export_image) [0..<0x3000]"]
    example_client_base [of "0x180000000" export_image]
    example_headers_read [of "0x180000000" export_image]
    export_validate export_size
    example_image_read [of "0x180000000" export_image]
  by simp

text \<open>
  Claim C10 as stated fails for an image whose header gives \<open>SizeOfImage = 0\<close>: the
  module is found, the headers validate, the (empty) image is read, and the result is
  \<open>std::nullopt\<close>.
\<close>

theorem find_pattern_empty_image:
  "get_module_base_by_name (example_os 0x180000000 bare_image) example_session ''client.dll''
     = Some 0x180000000
   \<and> read_memory (example_os 0x180000000 bare_image) example_session 0x180000000 0x1000
     = Some (map (sparse bare_image) [0..<0x1000])
   \<and> validate_headers (map (sparse bare_image) [0..<0x1000]) = Inr (Some 0x80)
   \<and> SizeOfImage (map (sparse bare_image) [0..<0x1000]) 0x80 = Inr 0
   \<and> read_memory (example_os 0x180000000 bare_image) example_session 0x180000000 0 = Some []
   \<and> find_pattern (example_os 0x180000000 bare_image) example_session ''client.dll'' ''''
     = Inr None"
  by (simp add: find_pattern_def example_client_base example_headers_read bare_validate
      bare_size bare_image_read scan_from_empty_pattern del: upt_rec_numeral)

subsection \<open>What the scan computes\<close>

text \<open>
  When the pattern text is no longer than the image, no index leaves the image and
  the scan returns the smallest index below \<open>|B|\<close> minus the length of the
  \<^emph>\<open>text\<close> at which the compiled pattern matches (\<open>scan_from_first_match\<close>,
  \<open>scan_from_no_match\<close>). When the text is longer than the image the loop bound has
  wrapped around and the scan cannot end with \<open>std::nullopt\<close>
  (\<open>scan_from_wrapped_bound\<close>).
\<close>

lemma slots_match_from_step:
  "j < length P \<Longrightarrow>
   slots_match_from P B i j
     \<longleftrightarrow> (P ! j = -1 \<or> uint (B ! (i + j)) = P ! j) \<and> slots_match_from P B i (Suc j)"
  by (simp add: slots_match_from_def upt_conv_Cons)

lemma match_slots_fits:
  assumes "unat i + length P \<le> unat ms" and "unat ms = length B" and "unat j \<le> length P"
  shows "match_slots ms B P i j = Inr (slots_match_from P B (unat i) (unat j))"
  using assms
proof (induction ms B P i j rule: match_slots.induct)
  case (1 ms B P i j)
  show ?case
  proof (cases "unat j < length P")
    case False
    then have "slots_match_from P B (unat i) (unat j)"
      by (simp add: slots_match_from_def)
    then show ?thesis
      using False by (subst match_slots.simps) simp
  next
    case True
    have small: "unat i + unat j < unat ms"
      using True "1.prems"(1) by simp
    have "unat ms < 2 ^ 32"
      using unsigned_less [of ms] by simp
    then have sum: "unat (i + j) = unat i + unat j"
      using small by (simp add: unat_add_lem [THEN iffD1])
    then have below: "i + j < ms" "unat (i + j) < length B"
      using small "1.prems"(2) by (simp_all add: word_less_nat_alt)
    have "j < ms"
      using small by (simp add: word_less_nat_alt)
    then have next_j: "unat (j + 1) = Suc (unat j)"
      by (rule unat_succ_below)
    show ?thesis
    proof (cases "uint (B ! unat (i + j)) \<noteq> P ! unat j \<and> P ! unat j \<noteq> -1")
      case mismatch: True
      then have "\<not> slots_match_from P B (unat i) (unat j)"
        using True sum by (auto simp: slots_match_from_step)
      then show ?thesis
        using True below mismatch by (subst match_slots.simps) simp
    next
      case match: False
      have "match_slots ms B P i (j + 1)
          = Inr (slots_match_from P B (unat i) (unat (j + 1)))"
        using "1.IH" True below match "1.prems" next_j by simp
      moreover have "slots_match_from P B (unat i) (unat j)
          = slots_match_from P B (unat i) (Suc (unat j))"
        using True match sum by (auto simp: slots_match_from_step)
      ultimately show ?thesis
        using True below match next_j by (subst match_slots.simps) auto
    qed
  qed
qed

lemma matches_at_slots:
  "i + length P \<le> length B \<Longrightarrow> matches_at P B i = slots_match_from P B i 0"
  by (simp add: matches_at_def slots_match_from_def)


lemma unat_ucast_u32: "unat (ucast (x :: u32) :: u64) = unat x"
proof -
  have same: "uint (ucast x :: u64) = uint x"
    by (simp add: uint_up_ucast is_up)
  have "unat (ucast x :: u64) = nat (uint (ucast x :: u64))"
    by (rule unat_eq_nat_uint)
  also have "\<dots> = nat (uint x)"
    by (simp only: same)
  also have "\<dots> = unat x"
    by (rule unat_eq_nat_uint [symmetric])
  finally show ?thesis .
qed

lemma scan_bound_fits:
  assumes "L \<le> unat (ms :: u32)"
  shows "((ucast (i :: u32) :: u64) < ucast ms - of_nat L) = (unat i < unat ms - L)"
proof -
  have "unat ms < 2 ^ 32"
    using unsigned_less [of ms] by simp
  then have "L < 2 ^ 64"
    using assms by simp
  then have L: "unat (of_nat L :: u64) = L"
    by (simp add: unat_of_nat)
  then have "unat ((ucast ms :: u64) - of_nat L) = unat ms - L"
    using assms by (simp add: unat_sub_if_size unat_ucast_u32)
  then show ?thesis
    by (simp add: word_less_nat_alt unat_ucast_u32)
qed

lemma scan_bound_wraps:
  assumes "unat (ms :: u32) < L" and "L < 2 ^ 32"
  shows "(ucast (i :: u32) :: u64) < ucast ms - of_nat L"
proof -
  have i: "unat i < 2 ^ 32"
    using unsigned_less [of i] by simp
  have L: "unat (of_nat L :: u64) = L"
    using assms(2) by (simp add: unat_of_nat)
  then have "unat ((ucast ms :: u64) - of_nat L) = unat ms + 2 ^ 64 - L"
    using assms by (simp add: unat_sub_if_size unat_ucast_u32 word_size)
  then show ?thesis
    using i assms(2) by (simp add: word_less_nat_alt unat_ucast_u32)
qed


lemma scan_from_fits:
  assumes "unat ms = length B" and "length P \<le> L" and "L \<le> unat ms"
    and "unat i \<le> unat ms - L"
  shows "scan_from ms B L P i
    = Inr (map_option of_nat (find (matches_at P B) [unat i..<unat ms - L]))"
  using assms
proof (induction ms B L P i rule: scan_from.induct)
  case (1 ms B L P i)
  note bound = scan_bound_fits [OF "1.prems"(3), of i]
  show ?case
  proof (cases "unat i < unat ms - L")
    case False
    then have "[unat i..<unat ms - L] = []"
      by simp
    then show ?thesis
      using False bound by (subst scan_from.simps) simp
  next
    case True
    have fits: "unat i + length P \<le> unat ms"
      using True "1.prems"(2) by simp
    then have inner: "match_slots ms B P i 0 = Inr (matches_at P B (unat i))"
      using match_slots_fits [of i P ms B 0] "1.prems"(1) by (simp add: matches_at_slots)
    have "i < ms"
      using True by (simp add: word_less_nat_alt)
    then have next_i: "unat (i + 1) = Suc (unat i)"
      by (rule unat_succ_below)
    have range: "[unat i..<unat ms - L] = unat i # [Suc (unat i)..<unat ms - L]"
      using True by (rule upt_conv_Cons)
    show ?thesis
    proof (cases "matches_at P B (unat i)")
      case found: True
      then show ?thesis
        using True bound inner range by (subst scan_from.simps) simp
    next
      case missed: False
      have "scan_from ms B L P (i + 1)
          = Inr (map_option of_nat (find (matches_at P B) [unat (i + 1)..<unat ms - L]))"
        using "1.IH" [of False] True bound inner missed "1.prems" next_i by simp
      then show ?thesis
        using True bound inner missed range next_i by (subst scan_from.simps) simp
    qed
  qed
qed


lemma scan_from_wrapped_bound:
  assumes "unat ms < L" and "L < 2 ^ 32"
  shows "scan_from ms B L P i \<noteq> Inr None"
  using assms
proof (induction ms B L P i rule: scan_from.induct)
  case (1 ms B L P i)
  have bound: "(ucast i :: u64) < ucast ms - of_nat L"
    using "1.prems" by (rule scan_bound_wraps)
  show ?case
  proof (cases "match_slots ms B P i 0")
    case (Inl f)
    then show ?thesis
      using bound by (subst scan_from.simps) simp
  next
    case (Inr found)
    show ?thesis
    proof (cases found)
      case True
      then show ?thesis
        using bound Inr by (subst scan_from.simps) simp
    next
      case False
      then have "scan_from ms B L P (i + 1) \<noteq> Inr None"
        using "1.IH" bound Inr "1.prems" by simp
      then show ?thesis
        using bound Inr False by (subst scan_from.simps) simp
    qed
  qed
qed

lemma scan_from_first_match:
  assumes "unat ms = length B" and "length P \<le> L" and "L \<le> unat ms"
  shows "scan_from ms B L P 0 = Inr (Some i)
    \<longleftrightarrow> unat i < unat ms - L \<and> matches_at P B (unat i)
        \<and> (\<forall>k < unat i. \<not> matches_at P B k)"
proof -
  have scan: "scan_from ms B L P 0
      = Inr (map_option of_nat (find (matches_at P B) [0..<unat ms - L]))"
    using scan_from_fits [OF assms, of 0] by simp
  have small: "unat ms < 2 ^ 32"
    using unsigned_less [of ms] by simp
  show ?thesis
  proof
    assume "scan_from ms B L P 0 = Inr (Some i)"
    then obtain k where k: "find (matches_at P B) [0..<unat ms - L] = Some k" "i = of_nat k"
      using scan by auto
    then have facts: "k < unat ms - L" "matches_at P B k" "\<forall>j < k. \<not> matches_at P B j"
      by (auto simp: find_Some_iff)
    then have "unat i = k"
      using k(2) small by (simp add: unat_of_nat)
    then show "unat i < unat ms - L \<and> matches_at P B (unat i)
        \<and> (\<forall>k < unat i. \<not> matches_at P B k)"
      using facts by simp
  next
    assume rhs: "unat i < unat ms - L \<and> matches_at P B (unat i)
        \<and> (\<forall>k < unat i. \<not> matches_at P B k)"
    then have "find (matches_at P B) [0..<unat ms - L] = Some (unat i)"
      by (auto simp: find_Some_iff intro!: exI [of _ "unat i"])
    then show "scan_from ms B L P 0 = Inr (Some i)"
      using scan by simp
  qed
qed

lemma scan_from_no_match:
  assumes "unat ms = length B" and "length P \<le> L" and "L \<le> unat ms"
  shows "scan_from ms B L P 0 = Inr None \<longleftrightarrow> (\<forall>k < unat ms - L. \<not> matches_at P B k)"
proof -
  have "scan_from ms B L P 0
      = Inr (map_option of_nat (find (matches_at P B) [0..<unat ms - L]))"
    using scan_from_fits [OF assms, of 0] by simp
  then show ?thesis
    by (auto simp: find_None_iff)
qed

lemma length_pattern_to_bytes: "length (pattern_to_bytes pattern) \<le> length pattern"
  by (induction pattern rule: pattern_to_bytes.induct) (auto split: option.splits)

subsection \<open>The scan at the end of the image\<close>

lemma two_byte_headers:
  "validate_headers (map (sparse two_byte_image) [0..<0x1000]) = Inr (Some 0x80)"
  "SizeOfImage (map (sparse two_byte_image) [0..<0x1000]) 0x80 = Inr 2"
  by (simp_all add: validate_headers_def SizeOfImage_def read_u16_def read_u32_def in_buffer_def
      le16_def le32_def sparse_def example_headers_def two_byte_image_def
      IMAGE_DOS_SIGNATURE_def IMAGE_NT_SIGNATURE_def)

lemma one_byte_headers:
  "validate_headers (map (sparse one_byte_image) [0..<0x1000]) = Inr (Some 0x80)"
  "SizeOfImage (map (sparse one_byte_image) [0..<0x1000]) 0x80 = Inr 1"
  by (simp_all add: validate_headers_def SizeOfImage_def read_u16_def read_u32_def in_buffer_def
      le16_def le32_def sparse_def example_headers_def one_byte_image_def
      IMAGE_DOS_SIGNATURE_def IMAGE_NT_SIGNATURE_def)

lemma two_byte_data:
  "read_memory (example_os base two_byte_image) example_session base 2 = Some [0x4D, 0x5A]"
proof -
  have "[0..<2] = [0, 1 :: nat]"
    by (simp add: upt_conv_Cons)
  then show ?thesis
    using read_memory_example [of base base 2 two_byte_image]
    by (simp add: sparse_def two_byte_image_def example_headers_def)
qed

lemma one_byte_data:
  "read_memory (example_os base one_byte_image) example_session base 1 = Some [0x4D]"
proof -
  have "[0..<1] = [0 :: nat]"
    by simp
  then show ?thesis
    using read_memory_example [of base base 1 one_byte_image]
    by (simp add: sparse_def one_byte_image_def example_headers_def)
qed

lemma compile_5A: "pattern_to_bytes ''5A'' = [0x5A]"
  by (simp add: from_chars_def hex_digit_def is_hex_def digits_value_def)

lemma compile_4D_5A: "pattern_to_bytes ''4D 5A'' = [0x4D, 0x5A]"
  by (simp add: from_chars_def hex_digit_def is_hex_def digits_value_def)

text \<open>
  Claim C1 asks for the smallest index in \<open>[0, |B| - |P|]\<close> at which the pattern
  matches. The source instead stops the scan before \<open>|B|\<close> minus the length of the
  pattern \<^emph>\<open>text\<close>. For the module whose image is the two bytes \<open>4D 5A\<close> and the
  pattern \<open>5A\<close>, the pattern matches at index \<open>1 = |B| - |P|\<close>, the loop bound is
  \<open>2 - 2 = 0\<close>, and \<open>find_pattern\<close> returns \<open>std::nullopt\<close>. Likewise the scan of
  the eight bytes \<open>90 90 90 90 90 48 8B 0D\<close> for the pattern \<open>48 8B 0D\<close>, which
  matches at index \<open>5\<close>, has the loop bound \<open>8 - 8 = 0\<close> and finds nothing.
\<close>

theorem scan_stops_before_last_match:
  "read_memory (example_os 0x180000000 two_byte_image) example_session 0x180000000 2
     = Some [0x4D, 0x5A]
   \<and> pattern_to_bytes ''5A'' = [0x5A]
   \<and> matches_at [0x5A] [0x4D, 0x5A] 1
   \<and> scan_from 2 [0x4D, 0x5A] (length ''5A'') [0x5A] 0 = Inr None
   \<and> find_pattern (example_os 0x180000000 two_byte_image) example_session ''client.dll'' ''5A''
     = Inr None
   \<and> pattern_to_bytes ''48 8B 0D'' = [0x48, 0x8B, 0x0D]
   \<and> matches_at [0x48, 0x8B, 0x0D] [0x90, 0x90, 0x90, 0x90, 0x90, 0x48, 0x8B, 0x0D] 5
   \<and> scan_from 8 [0x90, 0x90, 0x90, 0x90, 0x90, 0x48, 0x8B, 0x0D] (length ''48 8B 0D'')
        [0x48, 0x8B, 0x0D] 0 = Inr None"
proof -
  have compiled: "pattern_to_bytes ''48 8B 0D'' = [0x48, 0x8B, 0x0D]"
    by (simp add: from_chars_def hex_digit_def is_hex_def digits_value_def)
  have "[0..<3] = [0, 1, 2 :: nat]"
    by (simp add: upt_conv_Cons)
  then have fits8: "matches_at [0x48, 0x8B, 0x0D] [0x90, 0x90, 0x90, 0x90, 0x90, 0x48, 0x8B, 0x0D] 5"
    by (simp add: matches_at_def)
  have scan8: "scan_from 8 [0x90, 0x90, 0x90, 0x90, 0x90, 0x48, 0x8B, 0x0D] (length ''48 8B 0D'')
        [0x48, 0x8B, 0x0D] 0 = Inr None"
    by (simp add: scan_from.simps)
  have scan: "scan_from 2 [0x4D, 0x5A] (length ''5A'') [0x5A] 0 = Inr None"
    by (simp add: scan_from.simps)
  have "unat (2 :: u32) = 2"
    by simp
  then have data: "read_memory (example_os 0x180000000 two_byte_image) example_session
      0x180000000 (unat (2 :: u32)) = Some [0x4D, 0x5A]"
    by (simp only: two_byte_data)
  have fits: "matches_at [0x5A] [0x4D, 0x5A] 1"
    by (simp add: matches_at_def)
  have "find_pattern (example_os 0x180000000 two_byte_image) example_session ''client.dll'' ''5A''
     = Inr None"
    unfolding find_pattern_def
    by (simp only: example_client_base example_headers_read two_byte_headers data compile_5A
        scan Let_def option.case sum.case)
  then show ?thesis
    by (simp only: two_byte_data compile_5A fits scan compiled fits8 scan8 simp_thms)
qed

text \<open>
  Claim C6 asks for \<open>std::nullopt\<close>, and no read outside the image, when the pattern is
  longer than the image. For the module whose image is the single byte \<open>4D\<close> and the
  pattern \<open>4D 5A\<close>, the loop bound \<open>1 - 5\<close> wraps around, the first slot matches at
  index \<open>0\<close> and the second slot is compared with \<open>module_data[1]\<close>, outside the
  image.
\<close>

theorem scan_reads_past_short_image:
  "read_memory (example_os 0x180000000 one_byte_image) example_session 0x180000000 1
     = Some [0x4D]
   \<and> pattern_to_bytes ''4D 5A'' = [0x4D, 0x5A]
   \<and> scan_from 1 [0x4D] (length ''4D 5A'') [0x4D, 0x5A] 0 = Inl OutOfBounds
   \<and> find_pattern (example_os 0x180000000 one_byte_image) example_session ''client.dll''
        ''4D 5A''
     = Inl OutOfBounds"
proof -
  have scan: "scan_from 1 [0x4D] (length ''4D 5A'') [0x4D, 0x5A] 0 = Inl OutOfBounds"
    by (simp add: scan_from.simps match_slots.simps word_less_nat_alt)
  have "unat (1 :: u32) = 1"
    by simp
  then have data: "read_memory (example_os 0x180000000 one_byte_image) example_session
      0x180000000 (unat (1 :: u32)) = Some [0x4D]"
    by (simp only: one_byte_data)
  have "find_pattern (example_os 0x180000000 one_byte_image) example_session ''client.dll''
      ''4D 5A'' = Inl OutOfBounds"
    unfolding find_pattern_def
    by (simp only: example_client_base example_headers_read one_byte_headers data compile_4D_5A
        scan Let_def option.case sum.case)
  then show ?thesis
    by (simp only: one_byte_data compile_4D_5A scan simp_thms)
qed

subsection \<open>Malformed pattern texts\<close>

text \<open>
  What the compiler does ignore: a character that is neither a hex digit, nor \<open>-\<close>,
  nor \<open>?\<close> contributes no slot wherever it stands, and neither does a last
  character other than \<open>?\<close>. Every slot lies between \<open>-15\<close> and \<open>255\<close>.
\<close>

lemma from_chars_no_digit:
  "\<not> is_hex c \<Longrightarrow> c \<noteq> CHR ''-'' \<Longrightarrow> from_chars (c # cs) = None"
  by (simp add: from_chars_def)

lemma ignored_character:
  assumes "\<not> is_hex c" and "c \<noteq> CHR ''-''" and "c \<noteq> CHR ''?''"
  shows "pattern_to_bytes (c # cs) = pattern_to_bytes cs"
  using assms by (cases cs) (simp_all add: from_chars_no_digit)

lemma trailing_character: "c \<noteq> CHR ''?'' \<Longrightarrow> pattern_to_bytes [c] = []"
  by simp

lemma from_chars_pair_range:
  assumes "from_chars [c, d] = Some v"
  shows "- 15 \<le> v \<and> v \<le> 255"
proof -
  have digit: "int (the (hex_digit x)) \<le> 15" if hex: "is_hex x" for x
  proof -
    obtain n where "hex_digit x = Some n"
      using hex by (auto simp: is_hex_def)
    then show ?thesis
      using hex_digit_less [of x n] by simp
  qed
  show ?thesis
  proof (cases "c = CHR ''-''")
    case True
    then show ?thesis
      using assms digit [of d]
      by (auto simp: from_chars_def digits_value_def Let_def split: if_splits)
  next
    case False
    then show ?thesis
      using assms digit [of c] digit [of d]
      by (auto simp: from_chars_def digits_value_def Let_def split: if_splits)
  qed
qed

lemma pattern_to_bytes_range:
  "list_all (\<lambda>v. - 15 \<le> v \<and> v \<le> 255) (pattern_to_bytes pattern)"
  by (induction pattern rule: pattern_to_bytes.induct)
     (auto split: option.splits dest: from_chars_pair_range)

text \<open>
  Claim C8 asks that a malformed token contributes no slot. In the source a hex digit
  followed by a character that is no hex digit is read by \<open>std::from_chars\<close> as a
  one-digit number, which is stored as a slot, and the character after it is skipped
  unread: the lone digit of \<open>4 8B\<close> and of \<open>4G\<close> becomes the slot \<open>4\<close>, and in
  \<open>4?\<close> the wildcard is lost as well. A minus sign before a hex digit is read as a
  sign: \<open>-1\<close> becomes the slot \<open>-1\<close>, the wildcard, and \<open>-F\<close> the slot \<open>-15\<close>.
\<close>

theorem malformed_tokens_leave_slots:
  "pattern_to_bytes ''4 8B'' = [0x04, 0x8B]
   \<and> pattern_to_bytes ''4G'' = [0x04]
   \<and> pattern_to_bytes ''4?'' = [0x04]
   \<and> pattern_to_bytes ''-1'' = [-1]
   \<and> pattern_to_bytes ''-F 8B'' = [-15, 0x8B]"
  by (simp add: from_chars_def hex_digit_def is_hex_def digits_value_def)

subsection \<open>An export right after the export directory\<close>

lemma export_address_None:
  "export_address module_base va size' function_rva = None
     \<longleftrightarrow> module_base + ucast va \<le> module_base + ucast function_rva
         \<and> module_base + ucast function_rva \<le> module_base + ucast va + ucast size'"
  by (simp add: export_address_def Let_def)

lemma export_address_Some:
  "export_address module_base va size' function_rva = Some a
     \<longleftrightarrow> a = module_base + ucast function_rva
         \<and> \<not> (module_base + ucast va \<le> module_base + ucast function_rva
               \<and> module_base + ucast function_rva \<le> module_base + ucast va + ucast size')"
  by (auto simp: export_address_def Let_def)

lemma export_directory_entry:
  "export_VirtualAddress (map (sparse export_image) [0..<0x1000]) 0x80 = Inr 0x2000"
  "export_Size (map (sparse export_image) [0..<0x1000]) 0x80 = Inr 0x40"
  by (simp_all add: export_VirtualAddress_def export_Size_def read_u32_def in_buffer_def le32_def
      sparse_def example_headers_def example_exports_def export_image_def)

lemma export_buffer_read:
  "read_memory (example_os 0x180000000 export_image) example_session 0x180002000 0x40
     = Some export_buffer"
  using read_memory_example [of "0x180002000" "0x180000000" "0x40" export_image]
  by (simp add: export_buffer_def del: upt_rec_numeral)

lemma export_buffer_length: "length export_buffer = 64"
  by (simp add: export_buffer_def del: upt_rec_numeral)

lemma export_buffer_nth:
  "k < 64 \<Longrightarrow> export_buffer ! k = sparse export_image (0x2000 + k)"
  by (simp add: export_buffer_def del: upt_rec_numeral)

lemma export_image_bytes:
  "sparse export_image 0x2018 = 1" "sparse export_image 0x2019 = 0"
  "sparse export_image 0x201A = 0" "sparse export_image 0x201B = 0"
  "sparse export_image 0x201C = 0x28" "sparse export_image 0x201D = 0x20"
  "sparse export_image 0x201E = 0" "sparse export_image 0x201F = 0"
  "sparse export_image 0x2020 = 0x2C" "sparse export_image 0x2021 = 0x20"
  "sparse export_image 0x2022 = 0" "sparse export_image 0x2023 = 0"
  "sparse export_image 0x2024 = 0x30" "sparse export_image 0x2025 = 0x20"
  "sparse export_image 0x2026 = 0" "sparse export_image 0x2027 = 0"
  "sparse export_image 0x2028 = 0x40" "sparse export_image 0x2029 = 0x20"
  "sparse export_image 0x202A = 0" "sparse export_image 0x202B = 0"
  "sparse export_image 0x202C = 0x34" "sparse export_image 0x202D = 0x20"
  "sparse export_image 0x202E = 0" "sparse export_image 0x202F = 0"
  "sparse export_image 0x2030 = 0" "sparse export_image 0x2031 = 0"
  "sparse export_image 0x2034 = 0x46" "sparse export_image 0x2035 = 0x6F"
  "sparse export_image 0x2036 = 0x6F" "sparse export_image 0x2037 = 0"
  by (simp_all add: sparse_def example_headers_def example_exports_def export_image_def)

lemma export_buffer_directory:
  "read_export_directory export_buffer
    = Inr \<lparr>NumberOfNames = 1, AddressOfFunctions = 0x2028,
            AddressOfNames = 0x202C, AddressOfNameOrdinals = 0x2030\<rparr>"
  by (simp add: read_export_directory_def in_buffer_def le32_def
      export_buffer_length export_buffer_nth export_image_bytes)

lemma export_buffer_name: "c_string export_buffer 0x34 = Inr [0x46, 0x6F, 0x6F]"
proof -
  have "drop 0x34 export_buffer = map (sparse export_image) [0x2034..<0x2040]"
    by (simp add: export_buffer_def drop_map del: upt_rec_numeral)
  also have "[0x2034..<0x2040] = [0x2034, 0x2035, 0x2036, 0x2037] @ [0x2038..<0x2040 :: nat]"
    by (simp add: upt_conv_Cons del: upt_rec_numeral)
  finally have "drop 0x34 export_buffer
      = [0x46, 0x6F, 0x6F, 0] @ map (sparse export_image) [0x2038..<0x2040]"
    by (simp add: export_image_bytes del: upt_rec_numeral)
  then show ?thesis
    by (simp add: c_string_def in_buffer_def export_buffer_length del: upt_rec_numeral)
qed

lemma export_loop_Foo:
  "export_loop 0x180000000 0x2000 0x40 export_buffer
     \<lparr>NumberOfNames = 1, AddressOfFunctions = 0x2028,
       AddressOfNames = 0x202C, AddressOfNameOrdinals = 0x2030\<rparr> ''Foo'' 0
   = Inr (export_address 0x180000000 0x2000 0x40 0x2040)"
  by (subst export_loop.simps)
     (simp add: local_offset_def read_u32_def read_u16_def in_buffer_def le32_def le16_def
       export_buffer_name export_buffer_length export_buffer_nth export_image_bytes)

text \<open>
  Claim C5 has a matched symbol forwarded, and \<open>std::nullopt\<close> returned, when its
  address lies in the half-open interval from \<open>module_base + VA\<close> to
  \<open>module_base + VA + Size\<close>, and has \<open>module_base + function_rva\<close> returned
  otherwise. The source compares with \<open><=\<close> at the upper end. In \<open>export_image\<close> the
  export \<open>Foo\<close> has the address \<open>module_base + 0x2040\<close>, which is
  \<open>module_base + VA + Size\<close> and so outside the half-open interval, and the
  result is \<open>std::nullopt\<close>.
\<close>

theorem export_after_directory_rejected:
  "get_module_export_by_name (example_os 0x180000000 export_image) example_session
      0x180000000 ''Foo'' = Inr None
   \<and> export_address 0x180000000 0x2000 0x40 0x2040 = None
   \<and> \<not> ((0x180000000 :: addr) + 0x2040 < 0x180000000 + 0x2000 + 0x40)"
proof -
  have "(0x180000000 :: addr) + ucast (0x2000 :: u32) = 0x180002000"
    and "unat (0x40 :: u32) = 0x40"
    by simp_all
  then have "get_module_export_by_name (example_os 0x180000000 export_image) example_session
      0x180000000 ''Foo'' = Inr (export_address 0x180000000 0x2000 0x40 0x2040)"
    unfolding get_module_export_by_name_def
    by (simp only: example_headers_read export_validate export_directory_entry
        export_buffer_read export_buffer_directory export_loop_Foo option.case sum.case)
       simp
  moreover have "export_address 0x180000000 0x2000 0x40 0x2040 = None"
    by (simp add: export_address_def)
  ultimately show ?thesis
    by simp
qed


subsection \<open>RIP-relative resolution\<close>

lemma mov_forward_bytes:
  "read_memory (example_os 0x1000 mov_forward) example_session 0x1003 4 = Some [0x10, 0, 0, 0]"
proof -
  have "[3..<7] = [3, 4, 5, 6 :: nat]"
    by (simp add: upt_conv_Cons)
  then show ?thesis
    using read_memory_example [of "0x1003" "0x1000" 4 mov_forward]
    by (simp add: sparse_def mov_forward_def del: upt_rec_numeral)
qed

lemma mov_backward_bytes:
  "read_memory (example_os 0x1000 mov_backward) example_session 0x1003 4
     = Some [0xF0, 0xFF, 0xFF, 0xFF]"
proof -
  have "[3..<7] = [3, 4, 5, 6 :: nat]"
    by (simp add: upt_conv_Cons)
  then show ?thesis
    using read_memory_example [of "0x1003" "0x1000" 4 mov_backward]
    by (simp add: sparse_def mov_backward_def del: upt_rec_numeral)
qed

lemma null_handle_read4:
  "read_memory_i32 (example_os 0x1000 mov_forward) (uninitialized 0) 0x1003 = None"
proof -
  have "read_bytes (\<lambda>a. None) (0x1003 :: addr) (Suc 3) = None"
    by (simp only: read_bytes.simps option.case)
  then show ?thesis
    by (simp add: read_memory_i32_def read_memory_def example_os_def uninitialized_def)
qed

lemma uint_scast32: "uint (scast (d :: u32) :: addr) = sint d mod 2 ^ 64"
proof -
  have "(scast d :: addr) = word_of_int (sint d)"
    by simp
  then show ?thesis
    by (simp only: uint_word_of_int) simp
qed

lemma mod_add_middle: "((x :: int) + y mod m + z) mod m = (x + y + z) mod m"
proof -
  have "x + y mod m + z = (x + z) + y mod m"
    by simp
  then have "(x + y mod m + z) mod m = ((x + z) + y mod m) mod m"
    by (simp only:)
  also have "\<dots> = ((x + z) + y) mod m"
    by (rule mod_add_right_eq)
  also have "(x + z) + y = x + y + z"
    by simp
  finally show ?thesis .
qed

lemma uint_rip_target:
  "uint ((a :: addr) + scast (d :: u32) + 7) = (uint a + sint d + 7) mod 2 ^ 64"
proof -
  have "uint (a + scast d + 7) = (uint a + uint (scast d :: addr) + 7) mod 2 ^ 64"
    by (simp add: uint_word_ariths mod_simps)
  also have "\<dots> = (uint a + sint d mod 2 ^ 64 + 7) mod 2 ^ 64"
    by (simp only: uint_scast32)
  also have "\<dots> = (uint a + sint d + 7) mod 2 ^ 64"
    by (rule mod_add_middle)
  finally show ?thesis .
qed


lemma mov_forward_displacement:
  "read_memory_i32 (example_os 0x1000 mov_forward) example_session 0x1003 = Some 0x10"
  by (simp add: read_memory_i32_def mov_forward_bytes le32_def)

lemma mov_backward_displacement:
  "read_memory_i32 (example_os 0x1000 mov_backward) example_session 0x1003 = Some 0xFFFFFFF0"
  by (simp add: read_memory_i32_def mov_backward_bytes le32_def)

text \<open>
  Claim C9. \<open>resolve_rip_relative_address\<close> returns \<open>None\<close> when the four bytes at
  \<open>a + 3\<close> cannot be read. When they are read as the displacement \<open>d\<close> it returns
  \<open>a + 7\<close> plus the sign extension of \<open>d\<close>, that is the address
  \<open>a + 7 + sint d\<close> modulo \<open>2 ^ 64\<close>. With the displacement bytes
  \<open>10 00 00 00\<close> at offset \<open>3\<close> of address \<open>0x1000\<close> the result is \<open>0x1017\<close>.
\<close>

theorem resolve_rip_relative_target:
  "(read_memory_i32 w s (a + 3) = None \<longrightarrow> resolve_rip_relative_address w s a = None)
   \<and> (read_memory_i32 w s (a + 3) = Some d \<longrightarrow>
        resolve_rip_relative_address w s a = Some (a + 7 + scast d)
        \<and> uint (a + 7 + scast d) = (uint a + 7 + sint d) mod 2 ^ 64)
   \<and> resolve_rip_relative_address (example_os 0x1000 mov_forward) example_session 0x1000
       = Some 0x1017"
proof -
  have "a + 7 + scast d = a + scast d + 7" and "uint a + 7 + sint d = uint a + sint d + 7"
    by simp_all
  then have "uint (a + 7 + scast d) = (uint a + 7 + sint d) mod 2 ^ 64"
    by (simp only: uint_rip_target)
  moreover have "resolve_rip_relative_address (example_os 0x1000 mov_forward) example_session
      0x1000 = Some 0x1017"
  proof -
    have "(0x1000 :: addr) + 3 = 0x1003"
      by simp
    then show ?thesis
      unfolding resolve_rip_relative_address_def
      by (simp only: mov_forward_displacement option.case) simp
  qed
  ultimately show ?thesis
    by (simp add: resolve_rip_relative_address_def)
qed

theorem resolve_rip_relative_target_witness:
  "read_memory_i32 (example_os 0x1000 mov_backward) example_session (0x1000 + 3)
     = Some 0xFFFFFFF0
   \<and> sint (0xFFFFFFF0 :: u32) = - 16
   \<and> resolve_rip_relative_address (example_os 0x1000 mov_backward) example_session 0x1000
     = Some 0xFF7
   \<and> read_memory_i32 (example_os 0x1000 mov_forward) (uninitialized 0) (0x1000 + 3) = None
   \<and> resolve_rip_relative_address (example_os 0x1000 mov_forward) (uninitialized 0) 0x1000
     = None"
  using resolve_rip_relative_target [where w = "example_os 0x1000 mov_backward"
      and s = example_session and a = "0x1000" and d = "0xFFFFFFF0"]
    resolve_rip_relative_target [where w = "example_os 0x1000 mov_forward"
      and s = "uninitialized 0" and a = "0x1000"]
    mov_backward_displacement null_handle_read4
  by simp

end
